theory Spec2Isabelle
  imports Complex_Main
begin

section \<open>Python values and the built-ins the command relies on\<close>

text \<open>
  The management command \<^verbatim>\<open>sync_kudos.py\<close> handles dynamically typed values: the
  start cursor is a \<^verbatim>\<open>str\<close> (from \<^verbatim>\<open>--start\<close>), an \<^verbatim>\<open>int\<close> (from \<^verbatim>\<open>--rewind\<close>) or
  \<^verbatim>\<open>None\<close>/\<^verbatim>\<open>int\<close> (from \<^verbatim>\<open>--catchup\<close>), and the OpenSea payload is whatever
  \<^verbatim>\<open>r.json()\<close> returns. Strings are ASCII byte strings in this model.
\<close>

datatype pyfloat = FFinite rat | FInfinite | FNaN

datatype pyval =
    PNone
  | PBool bool
  | PInt int
  | PFloat pyfloat
  | PStr string
  | PList "pyval list"
  | PDict "(string \<times> pyval) list"

text \<open>Exceptions, by Python class. The two classes the command raises itself carry
  their message.\<close>

datatype error =
    RuntimeError string
  | ValueError string
  | TypeError
  | KeyError
  | IndexError
  | OverflowError
  | UnboundLocalError
  | HTTPError
  | JSONDecodeError

definition msg_opensea_network :: string where
  "msg_opensea_network =
     ''The Open Sea API is only supported for contracts on rinkeby and mainnet.''"

definition msg_unstable :: string where
  "msg_unstable = ''This option is unstable if not on web3py 4.7.2.  May crash testrpc.''"

definition msg_fromBlock :: string where
  "msg_fromBlock = ''--fromBlock must be \"earliest\", or \"latest\"''"

definition msg_catchup :: string where
  "msg_catchup = ''--catchup option is not valid for filter syncing''"

definition msg_int_literal :: string where
  "msg_int_literal = ''invalid literal for int() with base 10''"

definition msg_int_nan :: string where
  "msg_int_nan = ''cannot convert float NaN to integer''"

subsection \<open>\<^verbatim>\<open>str.isdigit\<close> and \<^verbatim>\<open>int\<close>\<close>

definition is_digit :: "char \<Rightarrow> bool" where
  "is_digit c = (c \<in> set ''0123456789'')"

text \<open>\<^verbatim>\<open>s.isdigit()\<close>: at least one character, and every character a digit.\<close>

definition isdigit :: "string \<Rightarrow> bool" where
  "isdigit s = (s \<noteq> [] \<and> list_all is_digit s)"

definition digit_val :: "char \<Rightarrow> int" where
  "digit_val c = int (of_char c) - 48"

text \<open>\<^verbatim>\<open>int\<close> skips the six ASCII whitespace characters around the number: space, tab,
  line feed, vertical tab, form feed and carriage return.\<close>

definition is_space :: "char \<Rightarrow> bool" where
  "is_space c = (c \<in> set [CHR '' '', CHR 0x09, CHR 0x0A, CHR 0x0B, CHR 0x0C, CHR 0x0D])"

definition strip :: "string \<Rightarrow> string" where
  "strip s = rev (dropWhile is_space (rev (dropWhile is_space s)))"

text \<open>Decimal digits, where single underscores may separate digits (never leading,
  trailing or doubled). The flag says whether the previous character was a digit.\<close>

fun parse_digits :: "int \<Rightarrow> bool \<Rightarrow> string \<Rightarrow> int option" where
  "parse_digits acc prev [] = (if prev then Some acc else None)"
| "parse_digits acc prev (c # cs) =
     (if c = CHR ''_'' then (if prev then parse_digits acc False cs else None)
      else if is_digit c then parse_digits (10 * acc + digit_val c) True cs
      else None)"

text \<open>\<^verbatim>\<open>int(s)\<close> for a string: surrounding whitespace is dropped, then an optional sign
  and the digits. The interpreter's limit on the number of digits is not modelled.\<close>

definition int_of_str :: "string \<Rightarrow> int option" where
  "int_of_str s =
     (case strip s of
        [] \<Rightarrow> None
      | c # cs \<Rightarrow>
          if c = CHR ''-'' then map_option uminus (parse_digits 0 False cs)
          else if c = CHR ''+'' then parse_digits 0 False cs
          else parse_digits 0 False (c # cs))"

text \<open>\<^verbatim>\<open>int(v)\<close> for any value the command can hand to it.\<close>

fun py_int :: "pyval \<Rightarrow> error + int" where
  "py_int PNone = Inl TypeError"
| "py_int (PBool b) = Inr (if b then 1 else 0)"
| "py_int (PInt i) = Inr i"
| "py_int (PFloat (FFinite q)) = Inr (if q < 0 then \<lceil>q\<rceil> else \<lfloor>q\<rfloor>)"
| "py_int (PFloat FInfinite) = Inl OverflowError"
| "py_int (PFloat FNaN) = Inl (ValueError msg_int_nan)"
| "py_int (PStr s) =
     (case int_of_str s of None \<Rightarrow> Inl (ValueError msg_int_literal) | Some i \<Rightarrow> Inr i)"
| "py_int (PList xs) = Inl TypeError"
| "py_int (PDict kvs) = Inl TypeError"

subsection \<open>Subscripting\<close>

text \<open>\<^verbatim>\<open>v[key]\<close> with a string key: only a dict can be indexed by a string.\<close>

fun getitem_str :: "pyval \<Rightarrow> string \<Rightarrow> error + pyval" where
  "getitem_str (PDict kvs) key =
     (case map_of kvs key of None \<Rightarrow> Inl KeyError | Some v \<Rightarrow> Inr v)"
| "getitem_str v key = Inl TypeError"

text \<open>\<^verbatim>\<open>v[0]\<close>: the first element of a list, the first character of a string; a decoded
  JSON object has string keys only, so \<^verbatim>\<open>0\<close> is never one of them.\<close>

fun getitem_0 :: "pyval \<Rightarrow> error + pyval" where
  "getitem_0 (PList []) = Inl IndexError"
| "getitem_0 (PList (x # xs)) = Inr x"
| "getitem_0 (PStr []) = Inl IndexError"
| "getitem_0 (PStr (c # cs)) = Inr (PStr [c])"
| "getitem_0 (PDict kvs) = Inl KeyError"
| "getitem_0 v = Inl TypeError"

definition ebind :: "error + 'a \<Rightarrow> ('a \<Rightarrow> error + 'b) \<Rightarrow> error + 'b" where
  "ebind m f = (case m of Inl e \<Rightarrow> Inl e | Inr x \<Rightarrow> f x)"

section \<open>Command line, collaborators and effects\<close>

datatype network = Localhost | Rinkeby | Mainnet

datatype syncmethod = Filter | Id | Opensea

text \<open>The \<^verbatim>\<open>options\<close> dict of \<^verbatim>\<open>handle\<close>: an absent \<^verbatim>\<open>--start\<close> or \<^verbatim>\<open>--rewind\<close> is
  \<^verbatim>\<open>None\<close>, an absent \<^verbatim>\<open>--catchup\<close> is \<^verbatim>\<open>False\<close>.\<close>

record options =
  network :: network
  syncmethod :: syncmethod
  start :: "string option"
  rewind :: "int option"
  catchup :: bool

text \<open>The parser's mutually exclusive, required group: exactly one of the three.\<close>

definition parser_accepts :: "options \<Rightarrow> bool" where
  "parser_accepts opts =
     ((start opts \<noteq> None \<and> rewind opts = None \<and> \<not> catchup opts) \<or>
      (start opts = None \<and> rewind opts \<noteq> None \<and> \<not> catchup opts) \<or>
      (start opts = None \<and> rewind opts = None \<and> catchup opts))"

record transfer_event =
  blockNumber :: int
  tokenId :: int
  transactionHash :: string

record response =
  status_code :: int
  json_body :: "pyval option"

text \<open>Every call to a collaborator, in the order made. Logging is not recorded.\<close>

datatype event =
    NewKudosContract network
  | TotalSupplyCall
  | GetBlockLatest
  | AggregateMaxId
  | CreateFilter pyval
  | GetAllEntries
  | RequestsGet string int
  | SyncDb int pyval
  | SyncDbWithoutTxid int

text \<open>
  The collaborators (\<^verbatim>\<open>KudosContract\<close>, \<^verbatim>\<open>Token\<close>, \<^verbatim>\<open>requests\<close>, \<^verbatim>\<open>web3\<close>) are not
  part of the command; they are parameters of the model. The total supply is a function
  of the calls made so far, so that it may change during a run. The store is an
  arbitrary type, written only by the two \<^verbatim>\<open>sync_db\<close> methods. Collaborator calls are
  taken to return; the exceptions modelled are the ones the command's own code raises.
\<close>

record 's world =
  web3_version :: string
  totalSupply :: "event list \<Rightarrow> int"
  latest_block_number :: int
  get_all_entries :: "pyval \<Rightarrow> transfer_event list"
  requests_get :: "string \<Rightarrow> int \<Rightarrow> response"
  sync_db :: "int \<Rightarrow> pyval \<Rightarrow> 's \<Rightarrow> 's"
  sync_db_without_txid :: "int \<Rightarrow> 's \<Rightarrow> 's"
  aggregate_max_id :: "'s \<Rightarrow> int option"

record 's state =
  store :: 's
  trace :: "event list"

definition emit :: "event \<Rightarrow> 's state \<Rightarrow> 's state" where
  "emit e s = s\<lparr>trace := trace s @ [e]\<rparr>"

definition call_sync_db :: "'s world \<Rightarrow> int \<Rightarrow> pyval \<Rightarrow> 's state \<Rightarrow> 's state" where
  "call_sync_db w kudos_id txid s =
     \<lparr>store = sync_db w kudos_id txid (store s), trace = trace s @ [SyncDb kudos_id txid]\<rparr>"

definition call_sync_db_without_txid :: "'s world \<Rightarrow> int \<Rightarrow> 's state \<Rightarrow> 's state" where
  "call_sync_db_without_txid w kudos_id s =
     \<lparr>store = sync_db_without_txid w kudos_id (store s),
      trace = trace s @ [SyncDbWithoutTxid kudos_id]\<rparr>"

type_synonym 's outcome = "(error + unit) \<times> 's state"

section \<open>\<^verbatim>\<open>opensea_sync\<close>\<close>

definition opensea_url :: "network \<Rightarrow> error + string" where
  "opensea_url net =
     (if net = Rinkeby then Inr ''https://rinkeby-api.opensea.io/api/v1/events''
      else if net = Mainnet then Inr ''https://api.opensea.io/api/v1/events''
      else Inl (RuntimeError msg_opensea_network))"

text \<open>\<^verbatim>\<open>r.raise_for_status()\<close> raises for the 4xx and 5xx status codes.\<close>

definition raise_for_status :: "response \<Rightarrow> error + unit" where
  "raise_for_status r =
     (if 400 \<le> status_code r \<and> status_code r < 600 then Inl HTTPError else Inr ())"

definition response_json :: "response \<Rightarrow> error + pyval" where
  "response_json r = (case json_body r of None \<Rightarrow> Inl JSONDecodeError | Some v \<Rightarrow> Inr v)"

text \<open>Lines 80 to 84 of the loop body, up to the arguments of \<^verbatim>\<open>sync_db\<close>.\<close>

definition opensea_item :: "response \<Rightarrow> error + (int \<times> pyval)" where
  "opensea_item r =
     ebind (raise_for_status r) (\<lambda>_.
     ebind (response_json r) (\<lambda>j1.
     ebind (getitem_str j1 ''asset_events'') (\<lambda>evs1.
     ebind (getitem_0 evs1) (\<lambda>ev1.
     ebind (getitem_str ev1 ''asset'') (\<lambda>asset.
     ebind (getitem_str asset ''token_id'') (\<lambda>asset_token_id.
     ebind (response_json r) (\<lambda>j2.
     ebind (getitem_str j2 ''asset_events'') (\<lambda>evs2.
     ebind (getitem_0 evs2) (\<lambda>ev2.
     ebind (getitem_str ev2 ''transaction'') (\<lambda>tx.
     ebind (getitem_str tx ''transaction_hash'') (\<lambda>transaction_hash.
     ebind (py_int asset_token_id) (\<lambda>kudos_id.
     Inr (kudos_id, transaction_hash)))))))))))))"

fun opensea_loop :: "'s world \<Rightarrow> string \<Rightarrow> int list \<Rightarrow> 's state \<Rightarrow> 's outcome" where
  "opensea_loop w url [] s = (Inr (), s)"
| "opensea_loop w url (token_id # token_ids) s =
     (let s1 = emit (RequestsGet url token_id) s in
      case opensea_item (requests_get w url token_id) of
        Inl e \<Rightarrow> (Inl e, s1)
      | Inr (kudos_id, txid) \<Rightarrow> opensea_loop w url token_ids (call_sync_db w kudos_id txid s1))"

definition opensea_sync :: "'s world \<Rightarrow> network \<Rightarrow> int \<Rightarrow> 's state \<Rightarrow> 's outcome" where
  "opensea_sync w kudos_contract start_id s =
     (case opensea_url kudos_contract of
        Inl e \<Rightarrow> (Inl e, s)
      | Inr url \<Rightarrow>
          (let end_id = totalSupply w (trace s);
               s1 = emit TotalSupplyCall s;
               token_ids = [start_id..end_id]
           in opensea_loop w url token_ids s1))"

section \<open>\<^verbatim>\<open>filter_sync\<close>\<close>

fun filter_loop :: "'s world \<Rightarrow> transfer_event list \<Rightarrow> 's state \<Rightarrow> 's state" where
  "filter_loop w [] s = s"
| "filter_loop w (ev # evs) s =
     filter_loop w evs (call_sync_db w (tokenId ev) (PStr (transactionHash ev)) s)"

definition filter_sync :: "'s world \<Rightarrow> pyval \<Rightarrow> 's state \<Rightarrow> 's outcome" where
  "filter_sync w fromBlock s =
     (let s1 = emit (CreateFilter fromBlock) s;
          entries = get_all_entries w fromBlock;
          s2 = emit GetAllEntries s1
      in (Inr (), filter_loop w entries s2))"

section \<open>\<^verbatim>\<open>id_sync\<close>\<close>

text \<open>The \<^verbatim>\<open>while more_kudos\<close> loop, as a transformer of the loop variables
  \<^verbatim>\<open>kudos_enum\<close> and \<^verbatim>\<open>more_kudos\<close> and of the effects; \<^verbatim>\<open>end_id\<close> is not assigned
  in the loop.\<close>

function id_sync_loop ::
  "'s world \<Rightarrow> int \<Rightarrow> int \<Rightarrow> bool \<Rightarrow> 's state \<Rightarrow> int \<times> bool \<times> 's state" where
  "id_sync_loop w end_id kudos_enum more_kudos s =
     (if more_kudos then
        (let s1 = call_sync_db_without_txid w kudos_enum s;
             kudos_enum1 = kudos_enum + 1;
             more_kudos1 = (if kudos_enum1 > end_id then False else more_kudos)
         in id_sync_loop w end_id kudos_enum1 more_kudos1 s1)
      else (kudos_enum, more_kudos, s))"
  by pat_completeness auto
termination
  by (relation "measure (\<lambda>(w, end_id, kudos_enum, more_kudos, s).
        if more_kudos then nat (end_id + 1 - kudos_enum) + 1 else 0)") auto

definition id_sync :: "'s world \<Rightarrow> int \<Rightarrow> 's state \<Rightarrow> 's outcome" where
  "id_sync w start_id s =
     (let end_id = totalSupply w (trace s);
          s1 = emit TotalSupplyCall s;
          kudos_enum = start_id;
          more_kudos = True
      in (Inr (), snd (snd (id_sync_loop w end_id kudos_enum more_kudos s1))))"

section \<open>\<^verbatim>\<open>handle\<close>\<close>

text \<open>Truthiness of the option values, as \<^verbatim>\<open>if start:\<close> and \<^verbatim>\<open>elif rewind:\<close> test it:
  the value when it is truthy, nothing when it is \<^verbatim>\<open>None\<close>, empty or zero.\<close>

definition truthy_str :: "string option \<Rightarrow> string option" where
  "truthy_str v = (case v of None \<Rightarrow> None | Some s \<Rightarrow> if s \<noteq> [] then Some s else None)"

definition truthy_int :: "int option \<Rightarrow> int option" where
  "truthy_int v = (case v of None \<Rightarrow> None | Some i \<Rightarrow> if i \<noteq> 0 then Some i else None)"

text \<open>Lines 125 to 139: the value of \<^verbatim>\<open>fromBlock\<close>; when no branch binds it,
  \<^verbatim>\<open>logger.info(fromBlock)\<close> fails.\<close>

definition resolve_fromBlock ::
  "'s world \<Rightarrow> options \<Rightarrow> 's state \<Rightarrow> (error + pyval) \<times> 's state" where
  "resolve_fromBlock w opts s =
     (case truthy_str (start opts) of
        Some st \<Rightarrow>
          if isdigit st then (Inl (RuntimeError msg_unstable), s)
          else if st \<in> set [''earliest'', ''latest''] then (Inr (PStr st), s)
          else (Inl (ValueError msg_fromBlock), s)
      | None \<Rightarrow>
          (case truthy_int (rewind opts) of
             Some r \<Rightarrow>
               if web3_version w \<noteq> ''4.7.2'' then (Inl (RuntimeError msg_unstable), s)
               else (Inr (PInt (latest_block_number w - r)), emit GetBlockLatest s)
           | None \<Rightarrow>
               if catchup opts then (Inl (ValueError msg_catchup), s)
               else (Inl UnboundLocalError, s)))"

text \<open>Lines 144 to 149: the value of \<^verbatim>\<open>start_id\<close>, or nothing when no branch binds it.\<close>

definition resolve_start_id ::
  "'s world \<Rightarrow> options \<Rightarrow> 's state \<Rightarrow> pyval option \<times> 's state" where
  "resolve_start_id w opts s =
     (case truthy_str (start opts) of
        Some st \<Rightarrow> (Some (PStr st), s)
      | None \<Rightarrow>
          (case truthy_int (rewind opts) of
             Some r \<Rightarrow>
               (Some (PInt (totalSupply w (trace s) - r)), emit TotalSupplyCall s)
           | None \<Rightarrow>
               if catchup opts then
                 (Some (case aggregate_max_id w (store s) of
                          None \<Rightarrow> PNone | Some m \<Rightarrow> PInt m),
                  emit AggregateMaxId s)
               else (None, s)))"

text \<open>\<^verbatim>\<open>handle\<close>: the contract handle is built first; the model keeps of it the
  network it was built for, which \<^verbatim>\<open>opensea_sync\<close> reads back.\<close>

definition handle :: "'s world \<Rightarrow> options \<Rightarrow> 's state \<Rightarrow> 's outcome" where
  "handle w opts s =
     (let kudos_contract = network opts;
          s0 = emit (NewKudosContract (network opts)) s
      in if syncmethod opts = Filter then
           (case resolve_fromBlock w opts s0 of
              (Inl e, s1) \<Rightarrow> (Inl e, s1)
            | (Inr fromBlock, s1) \<Rightarrow> filter_sync w fromBlock s1)
         else
           (case resolve_start_id w opts s0 of
              (None, s1) \<Rightarrow> (Inl UnboundLocalError, s1)
            | (Some start_id, s1) \<Rightarrow>
                (case py_int start_id of
                   Inl e \<Rightarrow> (Inl e, s1)
                 | Inr n \<Rightarrow>
                     if syncmethod opts = Id then id_sync w n s1
                     else opensea_sync w kudos_contract n s1)))"

section \<open>Observations on a run\<close>

text \<open>The events a run added to the trace.\<close>

definition events_since :: "'s state \<Rightarrow> 's state \<Rightarrow> event list" where
  "events_since s s' = drop (length (trace s)) (trace s')"

text \<open>The entity ID of a store write; the other events write nothing.\<close>

fun upsert_id :: "event \<Rightarrow> int option" where
  "upsert_id (SyncDb kudos_id txid) = Some kudos_id"
| "upsert_id (SyncDbWithoutTxid kudos_id) = Some kudos_id"
| "upsert_id e = None"

definition upsert_ids :: "event list \<Rightarrow> int list" where
  "upsert_ids evs = List.map_filter upsert_id evs"

text \<open>The enumeration of the specification: every ID of a list upserted in turn.\<close>

definition upsert_all :: "'s world \<Rightarrow> int list \<Rightarrow> 's state \<Rightarrow> 's state" where
  "upsert_all w ids s = foldl (\<lambda>s i. call_sync_db_without_txid w i s) s ids"

section \<open>An example world\<close>

text \<open>A store as an association list from entity ID to transaction hash, a ledger whose
  supply is 3, and an index that answers every ID but 2.\<close>

fun max_key :: "(int \<times> pyval) list \<Rightarrow> int option" where
  "max_key [] = None"
| "max_key ((k, v) # kvs) = (case max_key kvs of None \<Rightarrow> Some k | Some m \<Rightarrow> Some (max k m))"

definition put :: "int \<Rightarrow> pyval \<Rightarrow> (int \<times> pyval) list \<Rightarrow> (int \<times> pyval) list" where
  "put k v kvs = (k, v) # filter (\<lambda>p. fst p \<noteq> k) kvs"

definition ok_response :: "int \<Rightarrow> response" where
  "ok_response k =
     \<lparr>status_code = 200,
      json_body = Some (PDict [(''asset_events'',
        PList [PDict [(''asset'', PDict [(''token_id'', PInt k)]),
                      (''transaction'', PDict [(''transaction_hash'', PStr ''0xab'')])]])])\<rparr>"

definition example_world :: "(int \<times> pyval) list world" where
  "example_world =
     \<lparr>web3_version = ''4.7.2'',
      totalSupply = (\<lambda>h. 3),
      latest_block_number = 100,
      get_all_entries = (\<lambda>fromBlock. []),
      requests_get = (\<lambda>url k. if k = 2 then \<lparr>status_code = 500, json_body = None\<rparr>
                                else ok_response k),
      sync_db = put,
      sync_db_without_txid = (\<lambda>k. put k PNone),
      aggregate_max_id = max_key\<rparr>"

definition empty_state :: "(int \<times> pyval) list state" where
  "empty_state = \<lparr>store = [], trace = []\<rparr>"

subsection \<open>Example command lines and states\<close>

definition catchup_id_options :: options where
  "catchup_id_options =
     \<lparr>network = Mainnet, syncmethod = Id, start = None, rewind = None, catchup = True\<rparr>"

definition store_upto_7 :: "(int \<times> pyval) list state" where
  "store_upto_7 = \<lparr>store = [(2, PNone), (7, PNone), (5, PNone)], trace = []\<rparr>"

definition filter_start_options :: "string \<Rightarrow> options" where
  "filter_start_options st =
     \<lparr>network = Mainnet, syncmethod = Filter, start = Some st, rewind = None, catchup = False\<rparr>"

definition rewind_options :: "network \<Rightarrow> syncmethod \<Rightarrow> int \<Rightarrow> options" where
  "rewind_options net m r =
     \<lparr>network = net, syncmethod = m, start = None, rewind = Some r, catchup = False\<rparr>"

definition filter_catchup_options :: options where
  "filter_catchup_options =
     \<lparr>network = Rinkeby, syncmethod = Filter, start = None, rewind = None, catchup = True\<rparr>"

definition mainnet_url :: string where
  "mainnet_url = ''https://api.opensea.io/api/v1/events''"

section \<open>The built-in \<^verbatim>\<open>int\<close> on examples\<close>

lemma py_int_examples:
  "py_int (PStr '' 12 '') = Inr 12"
  "py_int (PStr ''-1_000'') = Inr (- 1000)"
  "py_int (PStr [CHR 0x1F, CHR ''2'']) = Inl (ValueError msg_int_literal)"
  "py_int (PStr ''1__0'') = Inl (ValueError msg_int_literal)"
  "py_int (PStr []) = Inl (ValueError msg_int_literal)"
  by (simp_all add: int_of_str_def strip_def is_space_def is_digit_def digit_val_def)

section \<open>The enumeration loop\<close>

declare id_sync_loop.simps [simp del]

lemma id_sync_loop_False: "id_sync_loop w end_id k False s = (k, False, s)"
  by (simp add: id_sync_loop.simps)

lemma id_sync_loop_True:
  "id_sync_loop w end_id k True s =
     (if k + 1 > end_id then (k + 1, False, call_sync_db_without_txid w k s)
      else id_sync_loop w end_id (k + 1) True (call_sync_db_without_txid w k s))"
  by (subst id_sync_loop.simps) (simp add: Let_def id_sync_loop_False)

lemma id_sync_loop_upto:
  "id_sync_loop w end_id k True s =
     (max (k + 1) (end_id + 1), False, upsert_all w (k # [k + 1..end_id]) s)"
proof (induction "nat (end_id - k)" arbitrary: k s)
  case 0
  then have "end_id < k + 1" by simp
  then show ?case
    by (subst id_sync_loop_True) (simp add: upsert_all_def)
next
  case (Suc n)
  then have lt: "k + 1 \<le> end_id" and n: "n = nat (end_id - (k + 1))" by simp_all
  have "[k + 1..end_id] = (k + 1) # [k + 1 + 1..end_id]"
    using lt by (simp add: upto_rec1)
  then show ?case
    using lt Suc.hyps(1)[OF n, of "call_sync_db_without_txid w k s"]
    by (subst id_sync_loop_True) (simp add: upsert_all_def)
qed

lemma trace_upsert_all:
  "trace (upsert_all w ids s) = trace s @ map SyncDbWithoutTxid ids"
  unfolding upsert_all_def
  by (induction ids arbitrary: s) (simp_all add: call_sync_db_without_txid_def)

lemma store_upsert_all:
  "store (upsert_all w ids s) = foldl (\<lambda>st i. sync_db_without_txid w i st) (store s) ids"
  unfolding upsert_all_def
  by (induction ids arbitrary: s) (simp_all add: call_sync_db_without_txid_def)

lemma upsert_ids_Nil: "upsert_ids [] = []"
  by (simp add: upsert_ids_def map_filter_simps)

lemma upsert_ids_append: "upsert_ids (xs @ ys) = upsert_ids xs @ upsert_ids ys"
  by (simp add: upsert_ids_def map_filter_def)

lemma upsert_ids_Cons:
  "upsert_ids (e # es) = (case upsert_id e of None \<Rightarrow> upsert_ids es | Some k \<Rightarrow> k # upsert_ids es)"
  by (cases "upsert_id e") (simp_all add: upsert_ids_def map_filter_simps)

lemma upsert_ids_without_txid: "upsert_ids (map SyncDbWithoutTxid ids) = ids"
  by (induction ids) (simp_all add: upsert_ids_Cons upsert_ids_Nil)

lemma events_since_append: "trace s' = trace s @ evs \<Longrightarrow> events_since s s' = evs"
  by (simp add: events_since_def)

lemma id_sync_eq:
  "id_sync w start_id s =
     (Inr (), upsert_all w (start_id # [start_id + 1..totalSupply w (trace s)])
                (emit TotalSupplyCall s))"
  by (simp add: id_sync_def Let_def id_sync_loop_upto)

lemma id_sync_events:
  "events_since s (snd (id_sync w start_id s)) =
     TotalSupplyCall # SyncDbWithoutTxid start_id #
       map SyncDbWithoutTxid [start_id + 1..totalSupply w (trace s)]"
  by (rule events_since_append) (simp add: id_sync_eq trace_upsert_all emit_def)

lemma count_list_upto:
  "count_list [i..j] k = (if i \<le> k \<and> k \<le> j then 1 else 0)"
proof (induction "nat (j + 1 - i)" arbitrary: i)
  case 0
  then show ?case by simp
next
  case (Suc n)
  then have le: "i \<le> j" and n: "n = nat (j + 1 - (i + 1))" by simp_all
  have "[i..j] = i # [i + 1..j]"
    using le by (rule upto_rec1)
  with Suc.hyps(1)[OF n] le show ?case
    by auto
qed

lemma sorted_wrt_less_upto: "sorted_wrt (<) [i..j]"
  using sorted_upto[of i j] distinct_upto[of i j]
  by (simp add: strict_sorted_iff)

text \<open>
  C1. Whenever the start ID is at most the total supply that \<^verbatim>\<open>id_sync\<close> reads at its
  start, \<^verbatim>\<open>id_sync\<close> returns normally, reads the total supply once, and then calls
  \<^verbatim>\<open>sync_db_without_txid\<close> for the IDs from the start ID to that supply: each of them
  exactly once, no other ID, in strictly increasing order. The store is the result of
  those upserts, applied in that order.
\<close>

theorem id_sync_each_id_once_increasing:
  assumes "start_id \<le> totalSupply w (trace s)"
  shows "fst (id_sync w start_id s) = Inr () \<and>
    events_since s (snd (id_sync w start_id s)) =
      TotalSupplyCall # map SyncDbWithoutTxid [start_id..totalSupply w (trace s)] \<and>
    (\<forall>k. count_list (upsert_ids (events_since s (snd (id_sync w start_id s)))) k =
            (if start_id \<le> k \<and> k \<le> totalSupply w (trace s) then 1 else 0)) \<and>
    sorted_wrt (<) (upsert_ids (events_since s (snd (id_sync w start_id s)))) \<and>
    store (snd (id_sync w start_id s)) =
      foldl (\<lambda>st k. sync_db_without_txid w k st) (store s) [start_id..totalSupply w (trace s)]"
proof -
  have up: "start_id # [start_id + 1..totalSupply w (trace s)] = [start_id..totalSupply w (trace s)]"
    using assms by (simp add: upto_rec1)
  have ev: "events_since s (snd (id_sync w start_id s)) =
      TotalSupplyCall # map SyncDbWithoutTxid [start_id..totalSupply w (trace s)]"
    by (simp add: id_sync_events flip: up)
  have ids: "upsert_ids (events_since s (snd (id_sync w start_id s))) =
      [start_id..totalSupply w (trace s)]"
    by (simp add: ev upsert_ids_Cons upsert_ids_without_txid)
  have st: "store (snd (id_sync w start_id s)) =
      foldl (\<lambda>st k. sync_db_without_txid w k st) (store s) [start_id..totalSupply w (trace s)]"
    unfolding id_sync_eq up by (simp add: store_upsert_all emit_def)
  have cnt: "\<forall>k. count_list (upsert_ids (events_since s (snd (id_sync w start_id s)))) k =
            (if start_id \<le> k \<and> k \<le> totalSupply w (trace s) then 1 else 0)"
    unfolding ids by (simp add: count_list_upto)
  have srt: "sorted_wrt (<) (upsert_ids (events_since s (snd (id_sync w start_id s))))"
    unfolding ids by (rule sorted_wrt_less_upto)
  have ok: "fst (id_sync w start_id s) = Inr ()"
    by (simp add: id_sync_eq)
  from ok ev cnt srt st show ?thesis by blast
qed

lemma example_world_simps:
  "totalSupply example_world h = 3"
  "sync_db_without_txid example_world k = put k PNone"
  "sync_db example_world = put"
  "web3_version example_world = ''4.7.2''"
  "latest_block_number example_world = 100"
  "get_all_entries example_world fromBlock = []"
  "aggregate_max_id example_world = max_key"
  by (simp_all add: example_world_def)

theorem id_sync_each_id_once_increasing_witness:
  "(1::int) \<le> totalSupply example_world (trace empty_state) \<and>
   events_since empty_state (snd (id_sync example_world 1 empty_state)) =
     [TotalSupplyCall, SyncDbWithoutTxid 1, SyncDbWithoutTxid 2, SyncDbWithoutTxid 3] \<and>
   store (snd (id_sync example_world 1 empty_state)) = [(3, PNone), (2, PNone), (1, PNone)]"
proof -
  have h: "(1::int) \<le> totalSupply example_world (trace empty_state)"
    by (simp add: example_world_simps)
  note r = id_sync_each_id_once_increasing [OF h]
  from r have ev: "events_since empty_state (snd (id_sync example_world 1 empty_state)) =
      TotalSupplyCall # map SyncDbWithoutTxid [1..totalSupply example_world (trace empty_state)]"
    by blast
  from r have st: "store (snd (id_sync example_world 1 empty_state)) =
      foldl (\<lambda>st k. sync_db_without_txid example_world k st) (store empty_state)
        [1..totalSupply example_world (trace empty_state)]"
    by blast
  show ?thesis
    unfolding ev st by (simp add: example_world_simps empty_state_def put_def upto.simps)
qed

lemma call_without_txid_totalSupply_update:
  "call_sync_db_without_txid (w\<lparr>totalSupply := f\<rparr>) k s = call_sync_db_without_txid w k s"
  by (simp add: call_sync_db_without_txid_def)

lemma upsert_all_totalSupply_update:
  "upsert_all (w\<lparr>totalSupply := f\<rparr>) ids s = upsert_all w ids s"
  by (simp add: upsert_all_def call_without_txid_totalSupply_update)

lemma id_sync_upsert_ids:
  "upsert_ids (events_since s (snd (id_sync w start_id s))) =
     start_id # [start_id + 1..totalSupply w (trace s)]"
  by (simp add: id_sync_events upsert_ids_Cons upsert_ids_without_txid)

text \<open>
  C8. The loop of \<^verbatim>\<open>id_sync\<close> is a total function (its termination is proved with the
  definition): started at any counter with any bound it stops with \<^verbatim>\<open>more_kudos\<close> false and
  the counter at the larger of \<^verbatim>\<open>start_id + 1\<close> and \<^verbatim>\<open>end_id + 1\<close>, after upserting
  \<^verbatim>\<open>start_id\<close> and the IDs after it up to \<^verbatim>\<open>end_id\<close>. The number of upserts of a run is
  fixed by the supply read at its start, and a ledger whose supply differs at any later
  moment gives the very same run.
\<close>

theorem id_sync_bound_read_once:
  assumes "f (trace s) = totalSupply w (trace s)"
  shows "id_sync (w\<lparr>totalSupply := f\<rparr>) start_id s = id_sync w start_id s \<and>
    id_sync_loop w end_id start_id True s1 =
      (max (start_id + 1) (end_id + 1), False,
       upsert_all w (start_id # [start_id + 1..end_id]) s1) \<and>
    length (upsert_ids (events_since s (snd (id_sync w start_id s)))) =
      nat (max 1 (totalSupply w (trace s) - start_id + 1))"
proof -
  have same: "id_sync (w\<lparr>totalSupply := f\<rparr>) start_id s = id_sync w start_id s"
    using assms by (simp add: id_sync_eq upsert_all_totalSupply_update)
  have len: "length (upsert_ids (events_since s (snd (id_sync w start_id s)))) =
      nat (max 1 (totalSupply w (trace s) - start_id + 1))"
    unfolding id_sync_upsert_ids by simp
  from same id_sync_loop_upto[of w end_id start_id s1] len show ?thesis by blast
qed

theorem id_sync_bound_read_once_witness:
  "(\<lambda>h. 3 + int (length h)) (trace empty_state) = totalSupply example_world (trace empty_state) \<and>
   events_since empty_state
     (snd (id_sync (example_world\<lparr>totalSupply := \<lambda>h. 3 + int (length h)\<rparr>) 1 empty_state)) =
     [TotalSupplyCall, SyncDbWithoutTxid 1, SyncDbWithoutTxid 2, SyncDbWithoutTxid 3]"
proof -
  have h: "(\<lambda>h. 3 + int (length h)) (trace empty_state) =
      totalSupply example_world (trace empty_state)"
    by (simp add: example_world_simps empty_state_def)
  from id_sync_bound_read_once [of "\<lambda>h. 3 + int (length h)" empty_state example_world 1, OF h]
  have "id_sync (example_world\<lparr>totalSupply := \<lambda>h. 3 + int (length h)\<rparr>) 1 empty_state =
      id_sync example_world 1 empty_state"
    by blast
  then show ?thesis
    using h by (simp add: id_sync_events example_world_simps upto.simps)
qed

text \<open>
  C10. For every start ID, \<^verbatim>\<open>id_sync\<close> returns normally and its first store call, right
  after the total-supply read, is the upsert of the start ID; the IDs after it up to the
  supply follow. When the start ID is above the supply read, that one upsert is all the
  run does to the store.
\<close>

theorem id_sync_first_upsert_unconditional:
  "fst (id_sync w start_id s) = Inr () \<and>
   events_since s (snd (id_sync w start_id s)) =
     TotalSupplyCall # SyncDbWithoutTxid start_id #
       map SyncDbWithoutTxid [start_id + 1..totalSupply w (trace s)] \<and>
   (totalSupply w (trace s) < start_id \<longrightarrow>
      upsert_ids (events_since s (snd (id_sync w start_id s))) = [start_id] \<and>
      store (snd (id_sync w start_id s)) = sync_db_without_txid w start_id (store s))"
  by (simp add: id_sync_events upsert_ids_Cons upsert_ids_Nil)
     (simp add: id_sync_eq upsert_all_def call_sync_db_without_txid_def emit_def)

theorem id_sync_first_upsert_unconditional_witness:
  "totalSupply example_world (trace empty_state) < 5 \<and>
   upsert_ids (events_since empty_state (snd (id_sync example_world 5 empty_state))) = [5] \<and>
   store (snd (id_sync example_world 5 empty_state)) = [(5, PNone)]"
  using id_sync_first_upsert_unconditional [of example_world 5 empty_state]
  by (simp add: example_world_simps empty_state_def put_def upsert_ids_Cons upsert_ids_Nil)

section \<open>The event-log strategy\<close>

text \<open>
  C7. When the filter returns no entries, \<^verbatim>\<open>filter_sync\<close> returns normally, having only
  created the filter and read its entries: it makes no store call and the store is
  unchanged.
\<close>

theorem filter_sync_empty_is_noop:
  assumes "get_all_entries w fromBlock = []"
  shows "filter_sync w fromBlock s =
      (Inr (), s\<lparr>trace := trace s @ [CreateFilter fromBlock, GetAllEntries]\<rparr>) \<and>
    store (snd (filter_sync w fromBlock s)) = store s \<and>
    upsert_ids (events_since s (snd (filter_sync w fromBlock s))) = []"
  using assms
  by (simp add: filter_sync_def Let_def emit_def events_since_def upsert_ids_Cons upsert_ids_Nil)

theorem filter_sync_empty_is_noop_witness:
  "get_all_entries example_world (PStr ''latest'') = [] \<and>
   filter_sync example_world (PStr ''latest'') empty_state =
     (Inr (), \<lparr>store = [], trace = [CreateFilter (PStr ''latest''), GetAllEntries]\<rparr>)"
  using filter_sync_empty_is_noop [of example_world "PStr ''latest''" empty_state]
  by (simp add: example_world_simps empty_state_def)

section \<open>The coordinator\<close>

lemma parser_accepts_catchup:
  "parser_accepts opts \<Longrightarrow> catchup opts \<Longrightarrow> start opts = None \<and> rewind opts = None"
  by (auto simp: parser_accepts_def)

lemma events_since_trace_update [simp]:
  "events_since s (s\<lparr>trace := trace s @ evs\<rparr>) = evs"
  by (simp add: events_since_def)

lemma id_sync_trace:
  "trace (snd (id_sync w start_id s)) =
     trace s @ TotalSupplyCall # SyncDbWithoutTxid start_id #
       map SyncDbWithoutTxid [start_id + 1..totalSupply w (trace s)]"
  by (simp add: id_sync_eq trace_upsert_all emit_def)

lemma emit_twice: "emit b (emit a s) = s\<lparr>trace := trace s @ [a, b]\<rparr>"
  by (simp add: emit_def)

lemma handle_catchup:
  assumes "parser_accepts opts" "catchup opts" "syncmethod opts \<noteq> Filter"
  shows "handle w opts s =
    (case py_int (case aggregate_max_id w (store s) of None \<Rightarrow> PNone | Some m \<Rightarrow> PInt m) of
       Inl e \<Rightarrow> (Inl e, emit AggregateMaxId (emit (NewKudosContract (network opts)) s))
     | Inr n \<Rightarrow>
         if syncmethod opts = Id
         then id_sync w n (emit AggregateMaxId (emit (NewKudosContract (network opts)) s))
         else opensea_sync w (network opts) n
                (emit AggregateMaxId (emit (NewKudosContract (network opts)) s)))"
proof -
  have "store (emit (NewKudosContract (network opts)) s) = store s"
    by (simp add: emit_def)
  then show ?thesis
    using assms parser_accepts_catchup[OF assms(1,2)]
    by (simp add: handle_def resolve_start_id_def truthy_str_def truthy_int_def Let_def)
qed

text \<open>
  C9. With \<^verbatim>\<open>--catchup\<close> alone, the \<^verbatim>\<open>id\<close> or \<^verbatim>\<open>opensea\<close> method and a store that has
  no token, the start value resolves to \<^verbatim>\<open>None\<close>, \<^verbatim>\<open>int(start_id)\<close> raises a type error,
  and the run ends there: after building the contract handle and asking the store for its
  largest ID it makes no store call, and the store is unchanged.
\<close>

theorem catchup_on_empty_store_type_error:
  assumes "parser_accepts opts" "catchup opts" "syncmethod opts \<noteq> Filter"
    and "aggregate_max_id w (store s) = None"
  shows "fst (resolve_start_id w opts (emit (NewKudosContract (network opts)) s)) = Some PNone \<and>
    py_int PNone = Inl TypeError \<and>
    handle w opts s =
      (Inl TypeError, s\<lparr>trace := trace s @ [NewKudosContract (network opts), AggregateMaxId]\<rparr>) \<and>
    upsert_ids (events_since s (snd (handle w opts s))) = [] \<and>
    store (snd (handle w opts s)) = store s"
proof -
  have h: "handle w opts s =
      (Inl TypeError, s\<lparr>trace := trace s @ [NewKudosContract (network opts), AggregateMaxId]\<rparr>)"
    using assms(4) by (simp add: handle_catchup[OF assms(1-3)] emit_twice)
  have r: "fst (resolve_start_id w opts (emit (NewKudosContract (network opts)) s)) = Some PNone"
    using assms parser_accepts_catchup[OF assms(1,2)]
    by (simp add: resolve_start_id_def truthy_str_def truthy_int_def emit_def)
  show ?thesis
    unfolding h using r by (simp add: upsert_ids_Cons upsert_ids_Nil)
qed

theorem catchup_on_empty_store_type_error_witness:
  "parser_accepts catchup_id_options \<and> catchup catchup_id_options \<and>
   syncmethod catchup_id_options \<noteq> Filter \<and>
   aggregate_max_id example_world (store empty_state) = None \<and>
   handle example_world catchup_id_options empty_state =
     (Inl TypeError, \<lparr>store = [], trace = [NewKudosContract Mainnet, AggregateMaxId]\<rparr>)"
proof -
  have a: "parser_accepts catchup_id_options" "catchup catchup_id_options"
    "syncmethod catchup_id_options \<noteq> Filter"
    by (simp_all add: parser_accepts_def catchup_id_options_def)
  have b: "aggregate_max_id example_world (store empty_state) = None"
    by (simp add: example_world_simps empty_state_def)
  from catchup_on_empty_store_type_error [OF a b] a b show ?thesis
    by (simp add: catchup_id_options_def empty_state_def)
qed

text \<open>
  C4. With \<^verbatim>\<open>--catchup\<close> alone, the \<^verbatim>\<open>id\<close> or \<^verbatim>\<open>opensea\<close> method and a store whose
  largest token ID is \<^verbatim>\<open>M\<close>, the start value resolves to \<^verbatim>\<open>M\<close> and the strategy is run
  from \<^verbatim>\<open>M\<close>; with the \<^verbatim>\<open>id\<close> method the first upsert of the run is for \<^verbatim>\<open>M\<close> itself, not
  for \<^verbatim>\<open>M + 1\<close>.
\<close>

theorem catchup_starts_at_max_id:
  assumes "parser_accepts opts" "catchup opts" "syncmethod opts \<noteq> Filter"
    and "aggregate_max_id w (store s) = Some M"
  shows "fst (resolve_start_id w opts (emit (NewKudosContract (network opts)) s)) = Some (PInt M) \<and>
    (syncmethod opts = Id \<longrightarrow>
       handle w opts s =
         id_sync w M (s\<lparr>trace := trace s @ [NewKudosContract (network opts), AggregateMaxId]\<rparr>) \<and>
       hd (upsert_ids (events_since s (snd (handle w opts s)))) = M) \<and>
    (syncmethod opts = Opensea \<longrightarrow>
       handle w opts s =
         opensea_sync w (network opts) M
           (s\<lparr>trace := trace s @ [NewKudosContract (network opts), AggregateMaxId]\<rparr>))"
proof -
  let ?s1 = "s\<lparr>trace := trace s @ [NewKudosContract (network opts), AggregateMaxId]\<rparr>"
  have r: "fst (resolve_start_id w opts (emit (NewKudosContract (network opts)) s)) = Some (PInt M)"
    using assms parser_accepts_catchup[OF assms(1,2)]
    by (simp add: resolve_start_id_def truthy_str_def truthy_int_def emit_def)
  have h: "handle w opts s =
      (if syncmethod opts = Id then id_sync w M ?s1 else opensea_sync w (network opts) M ?s1)"
    using assms(4) by (simp add: handle_catchup[OF assms(1-3)] emit_twice)
  have e: "upsert_ids (events_since s (snd (id_sync w M ?s1))) =
      M # [M + 1..totalSupply w (trace ?s1)]"
    by (simp add: events_since_def id_sync_trace upsert_ids_Cons upsert_ids_Nil
        upsert_ids_without_txid)
  have o: "syncmethod opts \<noteq> Id \<Longrightarrow> syncmethod opts = Opensea"
    using assms(3) by (cases "syncmethod opts") simp_all
  show ?thesis
    using r h e o by auto
qed

theorem catchup_starts_at_max_id_witness:
  "parser_accepts catchup_id_options \<and> catchup catchup_id_options \<and>
   syncmethod catchup_id_options \<noteq> Filter \<and>
   aggregate_max_id example_world (store store_upto_7) = Some 7 \<and>
   handle example_world catchup_id_options store_upto_7 =
     id_sync example_world 7
       (store_upto_7\<lparr>trace := trace store_upto_7 @ [NewKudosContract Mainnet, AggregateMaxId]\<rparr>) \<and>
   hd (upsert_ids (events_since store_upto_7
         (snd (handle example_world catchup_id_options store_upto_7)))) = 7"
proof -
  have a: "parser_accepts catchup_id_options" "catchup catchup_id_options"
    "syncmethod catchup_id_options \<noteq> Filter"
    by (simp_all add: parser_accepts_def catchup_id_options_def)
  have b: "aggregate_max_id example_world (store store_upto_7) = Some 7"
    by (simp add: example_world_simps store_upto_7_def)
  have c: "syncmethod catchup_id_options = Id" "network catchup_id_options = Mainnet"
    by (simp_all add: catchup_id_options_def)
  note r = catchup_starts_at_max_id [OF a b, unfolded c]
  from r a b show ?thesis
    by blast
qed

lemma emit_once: "emit a s = s\<lparr>trace := trace s @ [a]\<rparr>"
  by (simp add: emit_def)

lemma handle_filter:
  "syncmethod opts = Filter \<Longrightarrow>
   handle w opts s =
     (case resolve_fromBlock w opts (emit (NewKudosContract (network opts)) s) of
        (Inl e, s1) \<Rightarrow> (Inl e, s1)
      | (Inr fromBlock, s1) \<Rightarrow> filter_sync w fromBlock s1)"
  by (simp add: handle_def Let_def)

lemma filter_sync_returns: "fst (filter_sync w fromBlock s) = Inr ()"
  by (simp add: filter_sync_def Let_def)

text \<open>What \<^verbatim>\<open>handle\<close> does with \<^verbatim>\<open>--start\<close> for the \<^verbatim>\<open>filter\<close> method, branch by branch
  (lines 125 to 131).\<close>

lemma handle_filter_start:
  assumes "syncmethod opts = Filter" and "start opts = Some st"
  shows "(st \<in> {''earliest'', ''latest''} \<longrightarrow>
       handle w opts s = filter_sync w (PStr st) (emit (NewKudosContract (network opts)) s) \<and>
       fst (handle w opts s) = Inr ()) \<and>
    (isdigit st \<longrightarrow>
       handle w opts s =
         (Inl (RuntimeError msg_unstable), emit (NewKudosContract (network opts)) s)) \<and>
    (st \<noteq> [] \<and> \<not> isdigit st \<and> st \<notin> {''earliest'', ''latest''} \<longrightarrow>
       handle w opts s =
         (Inl (ValueError msg_fromBlock), emit (NewKudosContract (network opts)) s))"
proof -
  have e: "\<not> isdigit ''earliest''" and l: "\<not> isdigit ''latest''"
    by (simp_all add: isdigit_def is_digit_def)
  have d: "isdigit st \<Longrightarrow> st \<noteq> []"
    by (simp add: isdigit_def)
  show ?thesis
    using assms e l d
    by (auto simp: handle_filter resolve_fromBlock_def truthy_str_def filter_sync_returns)
qed

text \<open>
  C6. The claim is that the \<^verbatim>\<open>filter\<close> method takes a block number, \<^verbatim>\<open>earliest\<close> or
  \<^verbatim>\<open>latest\<close> as \<^verbatim>\<open>--start\<close> and runs \<^verbatim>\<open>filter_sync\<close> from it, as the help text of
  \<^verbatim>\<open>--start\<close> says. The code does so for the marker \<^verbatim>\<open>latest\<close>, but not for a block number:
  on web3 4.7.2, \<^verbatim>\<open>--start 100\<close> raises the runtime error whose message says the option is
  unstable when not on 4.7.2, and \<^verbatim>\<open>filter_sync\<close> is not entered. On the same world
  \<^verbatim>\<open>--rewind 5\<close>, which tests the web3 version before raising that error, runs
  \<^verbatim>\<open>filter_sync\<close> from the block number 95.
\<close>

theorem filter_start_block_number_raises:
  "isdigit ''100'' \<and>
   web3_version example_world = ''4.7.2'' \<and>
   handle example_world (filter_start_options ''100'') empty_state =
     (Inl (RuntimeError msg_unstable), \<lparr>store = [], trace = [NewKudosContract Mainnet]\<rparr>) \<and>
   handle example_world (filter_start_options ''latest'') empty_state =
     (Inr (), \<lparr>store = [],
        trace = [NewKudosContract Mainnet, CreateFilter (PStr ''latest''), GetAllEntries]\<rparr>) \<and>
   handle example_world (rewind_options Mainnet Filter 5) empty_state =
     (Inr (), \<lparr>store = [],
        trace = [NewKudosContract Mainnet, GetBlockLatest, CreateFilter (PInt 95),
                 GetAllEntries]\<rparr>)"
proof -
  have d: "isdigit ''100''" and l: "\<not> isdigit ''latest''"
    by (simp_all add: isdigit_def is_digit_def)
  have a: "handle example_world (filter_start_options ''100'') empty_state =
     (Inl (RuntimeError msg_unstable), \<lparr>store = [], trace = [NewKudosContract Mainnet]\<rparr>)"
    using d
    by (simp add: handle_filter resolve_fromBlock_def truthy_str_def filter_start_options_def
        emit_def empty_state_def)
  have b: "handle example_world (filter_start_options ''latest'') empty_state =
     (Inr (), \<lparr>store = [],
        trace = [NewKudosContract Mainnet, CreateFilter (PStr ''latest''), GetAllEntries]\<rparr>)"
    using l
    by (simp add: handle_filter resolve_fromBlock_def truthy_str_def filter_start_options_def
        filter_sync_def Let_def emit_def empty_state_def example_world_simps)
  have c: "handle example_world (rewind_options Mainnet Filter 5) empty_state =
     (Inr (), \<lparr>store = [],
        trace = [NewKudosContract Mainnet, GetBlockLatest, CreateFilter (PInt 95),
                 GetAllEntries]\<rparr>)"
    by (simp add: handle_filter resolve_fromBlock_def truthy_str_def truthy_int_def
        rewind_options_def filter_sync_def Let_def emit_def empty_state_def example_world_simps)
  from d a b c show ?thesis
    by (simp add: example_world_simps)
qed

section \<open>Rewind\<close>

lemma rewind_options_simps:
  "network (rewind_options net m r) = net"
  "syncmethod (rewind_options net m r) = m"
  "start (rewind_options net m r) = None"
  "rewind (rewind_options net m r) = Some r"
  "catchup (rewind_options net m r) = False"
  by (simp_all add: rewind_options_def)

lemma handle_rewind:
  assumes "truthy_str (start opts) = None" "rewind opts = Some R" "R \<noteq> 0"
    and "syncmethod opts \<noteq> Filter"
  shows "handle w opts s =
    (if syncmethod opts = Id
     then id_sync w (totalSupply w (trace s @ [NewKudosContract (network opts)]) - R)
            (s\<lparr>trace := trace s @ [NewKudosContract (network opts), TotalSupplyCall]\<rparr>)
     else opensea_sync w (network opts)
            (totalSupply w (trace s @ [NewKudosContract (network opts)]) - R)
            (s\<lparr>trace := trace s @ [NewKudosContract (network opts), TotalSupplyCall]\<rparr>))"
  using assms
  by (simp add: handle_def resolve_start_id_def truthy_int_def Let_def emit_twice)
     (simp add: emit_def)

text \<open>
  C2. (as amended) With no \<^verbatim>\<open>--start\<close> and a non-zero \<^verbatim>\<open>--rewind R\<close>, the start value is
  the total supply read at that moment minus \<^verbatim>\<open>R\<close>, and the selected strategy is run with
  it whatever its sign: nothing rejects \<^verbatim>\<open>R\<close> above the supply. With the \<^verbatim>\<open>id\<close> method the
  run returns normally and its first upsert is for that start value. With the \<^verbatim>\<open>filter\<close>
  method and web3 4.7.2 the start block is the latest block number minus \<^verbatim>\<open>R\<close>.
\<close>

theorem rewind_start_is_head_minus_rewind:
  assumes "truthy_str (start opts) = None" and "rewind opts = Some R" and "R \<noteq> 0"
  shows "resolve_start_id w opts s0 =
      (Some (PInt (totalSupply w (trace s0) - R)), emit TotalSupplyCall s0) \<and>
    (syncmethod opts = Id \<longrightarrow>
       handle w opts s =
         id_sync w (totalSupply w (trace s @ [NewKudosContract (network opts)]) - R)
           (s\<lparr>trace := trace s @ [NewKudosContract (network opts), TotalSupplyCall]\<rparr>) \<and>
       fst (handle w opts s) = Inr () \<and>
       hd (upsert_ids (events_since s (snd (handle w opts s)))) =
         totalSupply w (trace s @ [NewKudosContract (network opts)]) - R) \<and>
    (syncmethod opts = Opensea \<longrightarrow>
       handle w opts s =
         opensea_sync w (network opts)
           (totalSupply w (trace s @ [NewKudosContract (network opts)]) - R)
           (s\<lparr>trace := trace s @ [NewKudosContract (network opts), TotalSupplyCall]\<rparr>)) \<and>
    (syncmethod opts = Filter \<and> web3_version w = ''4.7.2'' \<longrightarrow>
       handle w opts s =
         filter_sync w (PInt (latest_block_number w - R))
           (s\<lparr>trace := trace s @ [NewKudosContract (network opts), GetBlockLatest]\<rparr>))"
proof -
  let ?H = "totalSupply w (trace s @ [NewKudosContract (network opts)])"
  let ?s1 = "s\<lparr>trace := trace s @ [NewKudosContract (network opts), TotalSupplyCall]\<rparr>"
  have r: "resolve_start_id w opts s0 =
      (Some (PInt (totalSupply w (trace s0) - R)), emit TotalSupplyCall s0)"
    using assms by (simp add: resolve_start_id_def truthy_int_def)
  have i: "handle w opts s = id_sync w (?H - R) ?s1" if "syncmethod opts = Id"
    using that by (simp add: handle_rewind[OF assms])
  have o: "handle w opts s = opensea_sync w (network opts) (?H - R) ?s1"
    if "syncmethod opts = Opensea"
    using that by (simp add: handle_rewind[OF assms])
  have u: "hd (upsert_ids (events_since s (snd (id_sync w (?H - R) ?s1)))) = ?H - R"
    by (simp add: events_since_def id_sync_trace upsert_ids_Cons upsert_ids_Nil)
  have k: "fst (id_sync w (?H - R) ?s1) = Inr ()"
    by (simp add: id_sync_eq)
  have f: "handle w opts s =
      filter_sync w (PInt (latest_block_number w - R))
        (s\<lparr>trace := trace s @ [NewKudosContract (network opts), GetBlockLatest]\<rparr>)"
    if "syncmethod opts = Filter" "web3_version w = ''4.7.2''"
    using that assms
    by (simp add: handle_filter resolve_fromBlock_def truthy_int_def emit_twice)
  from r i o u k f show ?thesis
    by simp
qed

theorem rewind_start_is_head_minus_rewind_witness:
  "truthy_str (start (rewind_options Mainnet Id 2)) = None \<and>
   rewind (rewind_options Mainnet Id 2) = Some 2 \<and> (2::int) \<noteq> 0 \<and>
   resolve_start_id example_world (rewind_options Mainnet Id 2) empty_state =
     (Some (PInt 1), \<lparr>store = [], trace = [TotalSupplyCall]\<rparr>) \<and>
   hd (upsert_ids (events_since empty_state
         (snd (handle example_world (rewind_options Mainnet Id 2) empty_state)))) = 1"
proof -
  have a: "truthy_str (start (rewind_options Mainnet Id 2)) = None"
    "rewind (rewind_options Mainnet Id 2) = Some 2" "(2::int) \<noteq> 0"
    by (simp_all add: rewind_options_simps truthy_str_def)
  have c: "syncmethod (rewind_options Mainnet Id 2) = Id"
    by (simp add: rewind_options_simps)
  note r = rewind_start_is_head_minus_rewind [OF a, of example_world empty_state empty_state]
  from r have x: "resolve_start_id example_world (rewind_options Mainnet Id 2) empty_state =
      (Some (PInt (totalSupply example_world (trace empty_state) - 2)),
       emit TotalSupplyCall empty_state)"
    by blast
  from r c have y: "hd (upsert_ids (events_since empty_state
         (snd (handle example_world (rewind_options Mainnet Id 2) empty_state)))) =
      totalSupply example_world
        (trace empty_state @ [NewKudosContract (network (rewind_options Mainnet Id 2))]) - 2"
    by blast
  show ?thesis
    unfolding x y using a by (simp add: example_world_simps emit_def empty_state_def)
qed

text \<open>A rewind of 0 is falsy: no branch binds \<^verbatim>\<open>start_id\<close>, and reading it fails.\<close>

lemma rewind_zero_leaves_start_unbound:
  "handle example_world (rewind_options Mainnet Id 0) empty_state =
     (Inl UnboundLocalError, \<lparr>store = [], trace = [NewKudosContract Mainnet]\<rparr>)"
  by (simp add: handle_def resolve_start_id_def truthy_str_def truthy_int_def
      rewind_options_simps emit_def empty_state_def)

text \<open>C2 as stated fails on a rewind of 5 with a supply of 3: the start is \<^verbatim>\<open>-2\<close>, nothing
  rejects it, and \<^verbatim>\<open>id_sync\<close> is run with it to its normal end, upserting the IDs from \<^verbatim>\<open>-2\<close>
  to 3.\<close>

theorem rewind_beyond_supply_runs_strategy:
  "totalSupply example_world [NewKudosContract Mainnet] < 5 \<and>
   fst (handle example_world (rewind_options Mainnet Id 5) empty_state) = Inr () \<and>
   events_since empty_state (snd (handle example_world (rewind_options Mainnet Id 5) empty_state)) =
     [NewKudosContract Mainnet, TotalSupplyCall, TotalSupplyCall,
      SyncDbWithoutTxid (- 2), SyncDbWithoutTxid (- 1), SyncDbWithoutTxid 0,
      SyncDbWithoutTxid 1, SyncDbWithoutTxid 2, SyncDbWithoutTxid 3]"
proof -
  have "handle example_world (rewind_options Mainnet Id 5) empty_state =
      id_sync example_world (- 2)
        (empty_state\<lparr>trace := trace empty_state @ [NewKudosContract Mainnet, TotalSupplyCall]\<rparr>)"
    by (simp add: handle_rewind rewind_options_simps truthy_str_def example_world_simps)
  then show ?thesis
    by (simp add: id_sync_trace events_since_def example_world_simps
        empty_state_def upto.simps) (simp add: id_sync_eq)
qed

section \<open>Configuration errors\<close>

lemma opensea_sync_localhost:
  "opensea_sync w Localhost n s = (Inl (RuntimeError msg_opensea_network), s)"
  by (simp add: opensea_sync_def opensea_url_def)

lemma resolve_start_id_effects:
  assumes "resolve_start_id w opts s0 = (v, s1)"
  shows "store s1 = store s0 \<and>
    (\<exists>evs. trace s1 = trace s0 @ evs \<and> set evs \<subseteq> {TotalSupplyCall, AggregateMaxId})"
  using assms
  by (auto simp: resolve_start_id_def emit_def split: option.splits if_splits)

lemma handle_opensea_localhost:
  assumes "syncmethod opts = Opensea" and "network opts = Localhost"
  shows "handle w opts s =
    (case resolve_start_id w opts (emit (NewKudosContract Localhost) s) of
       (None, s1) \<Rightarrow> (Inl UnboundLocalError, s1)
     | (Some v, s1) \<Rightarrow>
         (case py_int v of
            Inl e \<Rightarrow> (Inl e, s1)
          | Inr n \<Rightarrow> (Inl (RuntimeError msg_opensea_network), s1)))"
  using assms
  by (simp add: handle_def Let_def opensea_sync_localhost
      split: prod.splits option.splits sum.splits)

lemma handle_opensea_localhost_error:
  assumes "syncmethod opts = Opensea" and "network opts = Localhost"
  shows "\<exists>e v. handle w opts s =
      (Inl e, snd (resolve_start_id w opts (emit (NewKudosContract Localhost) s))) \<and>
      fst (resolve_start_id w opts (emit (NewKudosContract Localhost) s)) = v \<and>
      (\<forall>x n. v = Some x \<and> py_int x = Inr n \<longrightarrow> e = RuntimeError msg_opensea_network)"
  unfolding handle_opensea_localhost[OF assms]
  by (auto split: prod.splits option.splits sum.splits)

lemma handle_filter_catchup:
  assumes "syncmethod opts = Filter" "parser_accepts opts" "catchup opts"
  shows "handle w opts s = (Inl (ValueError msg_catchup), emit (NewKudosContract (network opts)) s)"
  using assms parser_accepts_catchup[OF assms(2,3)]
  by (simp add: handle_filter resolve_fromBlock_def truthy_str_def truthy_int_def)

text \<open>
  C3. (as amended) For the \<^verbatim>\<open>filter\<close> method with \<^verbatim>\<open>--catchup\<close>, and for the \<^verbatim>\<open>opensea\<close>
  method on \<^verbatim>\<open>localhost\<close>, the run ends in an error with the store unchanged, and the only
  calls made are the building of the contract handle and, for \<^verbatim>\<open>opensea\<close>, the query that
  resolves the start value (the total supply for \<^verbatim>\<open>--rewind\<close>, the largest stored ID for
  \<^verbatim>\<open>--catchup\<close>): no request to the index, no filter and no store write. For \<^verbatim>\<open>filter\<close>
  with \<^verbatim>\<open>--catchup\<close> the value error is raised right after the contract handle is built. For
  \<^verbatim>\<open>opensea\<close> on \<^verbatim>\<open>localhost\<close> the runtime error of \<^verbatim>\<open>opensea_sync\<close> is raised once the start
  value has been resolved to an integer.
\<close>

theorem configuration_error_before_any_store_write:
  assumes "(syncmethod opts = Filter \<and> parser_accepts opts \<and> catchup opts) \<or>
           (syncmethod opts = Opensea \<and> network opts = Localhost)"
  shows "(\<exists>e. fst (handle w opts s) = Inl e) \<and>
    store (snd (handle w opts s)) = store s \<and>
    set (events_since s (snd (handle w opts s))) \<subseteq>
      {NewKudosContract (network opts), TotalSupplyCall, AggregateMaxId} \<and>
    (syncmethod opts = Filter \<longrightarrow>
       handle w opts s =
         (Inl (ValueError msg_catchup), s\<lparr>trace := trace s @ [NewKudosContract (network opts)]\<rparr>)) \<and>
    (syncmethod opts = Opensea \<longrightarrow>
       (\<forall>v n. fst (resolve_start_id w opts (emit (NewKudosContract Localhost) s)) = Some v \<and>
              py_int v = Inr n \<longrightarrow>
          handle w opts s =
            (Inl (RuntimeError msg_opensea_network),
             snd (resolve_start_id w opts (emit (NewKudosContract Localhost) s)))))"
  using assms
proof
  assume a: "syncmethod opts = Filter \<and> parser_accepts opts \<and> catchup opts"
  then have h: "handle w opts s =
      (Inl (ValueError msg_catchup), s\<lparr>trace := trace s @ [NewKudosContract (network opts)]\<rparr>)"
    by (simp add: handle_filter_catchup emit_once)
  show ?thesis
    unfolding h using a by simp
next
  assume a: "syncmethod opts = Opensea \<and> network opts = Localhost"
  let ?s0 = "emit (NewKudosContract Localhost) s"
  obtain v s1 where r: "resolve_start_id w opts ?s0 = (v, s1)"
    by (cases "resolve_start_id w opts ?s0")
  from resolve_start_id_effects[OF r] obtain evs where
    st: "store s1 = store s" and tr: "trace s1 = trace s @ NewKudosContract Localhost # evs"
    and evs: "set evs \<subseteq> {TotalSupplyCall, AggregateMaxId}"
    by (auto simp: emit_def)
  from handle_opensea_localhost_error[of opts w s] a r obtain e where
    h: "handle w opts s = (Inl e, s1)"
    and c: "\<forall>x n. v = Some x \<and> py_int x = Inr n \<longrightarrow> e = RuntimeError msg_opensea_network"
    by auto
  have ev: "events_since s s1 = NewKudosContract Localhost # evs"
    by (simp add: events_since_def tr)
  show ?thesis
    unfolding h using a st ev evs c r by auto
qed

theorem configuration_error_before_any_store_write_witness:
  "((syncmethod filter_catchup_options = Filter \<and> parser_accepts filter_catchup_options \<and>
     catchup filter_catchup_options) \<or>
    (syncmethod filter_catchup_options = Opensea \<and> network filter_catchup_options = Localhost)) \<and>
   handle example_world filter_catchup_options empty_state =
     (Inl (ValueError msg_catchup), \<lparr>store = [], trace = [NewKudosContract Rinkeby]\<rparr>)"
proof -
  have a: "syncmethod filter_catchup_options = Filter" "parser_accepts filter_catchup_options"
    "catchup filter_catchup_options"
    by (simp_all add: filter_catchup_options_def parser_accepts_def)
  then have b: "(syncmethod filter_catchup_options = Filter \<and> parser_accepts filter_catchup_options \<and>
     catchup filter_catchup_options) \<or>
    (syncmethod filter_catchup_options = Opensea \<and> network filter_catchup_options = Localhost)"
    by simp
  from configuration_error_before_any_store_write [OF b, of example_world empty_state] a(1)
  have "handle example_world filter_catchup_options empty_state =
      (Inl (ValueError msg_catchup),
       empty_state\<lparr>trace := trace empty_state @ [NewKudosContract (network filter_catchup_options)]\<rparr>)"
    by blast
  then show ?thesis
    using b by (simp add: empty_state_def filter_catchup_options_def)
qed

text \<open>C3 as stated fails on the \<^verbatim>\<open>opensea\<close> method on \<^verbatim>\<open>localhost\<close> with \<^verbatim>\<open>--rewind 1\<close>:
  the total supply is read from the ledger before the error is raised.\<close>

theorem opensea_localhost_reads_supply_before_error:
  "handle example_world (rewind_options Localhost Opensea 1) empty_state =
     (Inl (RuntimeError msg_opensea_network),
      \<lparr>store = [], trace = [NewKudosContract Localhost, TotalSupplyCall]\<rparr>)"
  by (simp add: handle_rewind rewind_options_simps truthy_str_def opensea_sync_localhost
      empty_state_def)

section \<open>The external-index strategy\<close>

lemma opensea_loop_Cons_fail:
  "opensea_item (requests_get w url j) = Inl e \<Longrightarrow>
   opensea_loop w url (j # js) s = (Inl e, emit (RequestsGet url j) s)"
  by (simp add: Let_def)

lemma opensea_loop_Cons_ok:
  "opensea_item (requests_get w url j) = Inr (kid, tx) \<Longrightarrow>
   opensea_loop w url (j # js) s =
     opensea_loop w url js (call_sync_db w kid tx (emit (RequestsGet url j) s))"
  by (simp add: Let_def)

lemma opensea_item_http_error:
  "400 \<le> status_code r \<Longrightarrow> status_code r < 600 \<Longrightarrow> opensea_item r = Inl HTTPError"
  by (simp add: opensea_item_def raise_for_status_def ebind_def)

lemma opensea_item_not_json:
  "\<not> (400 \<le> status_code r \<and> status_code r < 600) \<Longrightarrow> json_body r = None \<Longrightarrow>
   opensea_item r = Inl JSONDecodeError"
  by (simp add: opensea_item_def raise_for_status_def response_json_def ebind_def)

lemma opensea_item_missing_events:
  "\<not> (400 \<le> status_code r \<and> status_code r < 600) \<Longrightarrow> json_body r = Some (PDict kvs) \<Longrightarrow>
   map_of kvs ''asset_events'' = None \<Longrightarrow> opensea_item r = Inl KeyError"
  by (simp add: opensea_item_def raise_for_status_def response_json_def ebind_def)

lemma opensea_item_no_events:
  "\<not> (400 \<le> status_code r \<and> status_code r < 600) \<Longrightarrow> json_body r = Some (PDict kvs) \<Longrightarrow>
   map_of kvs ''asset_events'' = Some (PList []) \<Longrightarrow> opensea_item r = Inl IndexError"
  by (simp add: opensea_item_def raise_for_status_def response_json_def ebind_def)

text \<open>The loop over a range stops at the first ID whose item fails, having completed the
  IDs before it.\<close>

lemma opensea_loop_first_failure:
  assumes "start_id \<le> k" and "k \<le> end_id"
    and "opensea_item (requests_get w url k) = Inl e"
  shows "\<exists>k' e'. start_id \<le> k' \<and> k' \<le> k \<and>
      opensea_item (requests_get w url k') = Inl e' \<and>
      fst (opensea_loop w url [start_id..k' - 1] s) = Inr () \<and>
      opensea_loop w url [start_id..end_id] s =
        (Inl e', emit (RequestsGet url k') (snd (opensea_loop w url [start_id..k' - 1] s)))"
  using assms
proof (induction "nat (k - start_id)" arbitrary: start_id s)
  case 0
  then have eq: "start_id = k" by simp
  have "[k..end_id] = k # [k + 1..end_id]"
    using 0 by (simp add: upto_rec1)
  then show ?case
    using 0 eq by (intro exI[of _ k] exI[of _ e]) (simp add: opensea_loop_Cons_fail)
next
  case (Suc n)
  then have lt: "start_id < k" by simp
  have up: "[start_id..end_id] = start_id # [start_id + 1..end_id]"
    using lt Suc.prems by (simp add: upto_rec1)
  show ?case
  proof (cases "opensea_item (requests_get w url start_id)")
    case (Inl e0)
    then show ?thesis
      using lt up by (intro exI[of _ start_id] exI[of _ e0]) (simp add: opensea_loop_Cons_fail)
  next
    case (Inr p)
    obtain kid tx where p: "p = (kid, tx)" by (cases p)
    let ?s' = "call_sync_db w kid tx (emit (RequestsGet url start_id) s)"
    have n: "n = nat (k - (start_id + 1))" using Suc.hyps(2) by simp
    from Suc.hyps(1)[OF n, of ?s'] lt Suc.prems obtain k' e' where
      k': "start_id + 1 \<le> k'" "k' \<le> k" "opensea_item (requests_get w url k') = Inl e'"
      "fst (opensea_loop w url [start_id + 1..k' - 1] ?s') = Inr ()"
      "opensea_loop w url [start_id + 1..end_id] ?s' =
         (Inl e', emit (RequestsGet url k') (snd (opensea_loop w url [start_id + 1..k' - 1] ?s')))"
      by auto
    have up': "[start_id..k' - 1] = start_id # [start_id + 1..k' - 1]"
      using k'(1) by (simp add: upto_rec1)
    have a: "opensea_loop w url [start_id..end_id] s = opensea_loop w url [start_id + 1..end_id] ?s'"
      unfolding up using Inr p by (simp add: opensea_loop_Cons_ok)
    have b: "opensea_loop w url [start_id..k' - 1] s = opensea_loop w url [start_id + 1..k' - 1] ?s'"
      unfolding up' using Inr p by (simp add: opensea_loop_Cons_ok)
    show ?thesis
      using k' a b by (intro exI[of _ k'] exI[of _ e']) simp
  qed
qed

text \<open>What a loop can add to the trace: requests for IDs of its list, and upserts of the
  items those requests gave.\<close>

lemma opensea_loop_effects:
  "\<exists>evs. trace (snd (opensea_loop w url ids s)) = trace s @ evs \<and>
     (\<forall>ev \<in> set evs.
        (\<exists>j \<in> set ids. ev = RequestsGet url j) \<or>
        (\<exists>j \<in> set ids. \<exists>kid tx. opensea_item (requests_get w url j) = Inr (kid, tx) \<and>
                                  ev = SyncDb kid tx))"
proof (induction ids arbitrary: s)
  case Nil
  show ?case by simp
next
  case (Cons j js)
  show ?case
  proof (cases "opensea_item (requests_get w url j)")
    case (Inl e)
    then show ?thesis
      by (simp add: opensea_loop_Cons_fail emit_def)
  next
    case (Inr p)
    obtain kid tx where p: "p = (kid, tx)" by (cases p)
    let ?s' = "call_sync_db w kid tx (emit (RequestsGet url j) s)"
    from Cons.IH[of ?s'] obtain evs where
      t: "trace (snd (opensea_loop w url js ?s')) = trace ?s' @ evs"
      and e: "\<forall>ev \<in> set evs.
        (\<exists>j \<in> set js. ev = RequestsGet url j) \<or>
        (\<exists>j \<in> set js. \<exists>kid tx. opensea_item (requests_get w url j) = Inr (kid, tx) \<and>
                                  ev = SyncDb kid tx)"
      by blast
    have t': "trace ?s' = trace s @ [RequestsGet url j, SyncDb kid tx]"
      by (simp add: call_sync_db_def emit_def)
    have l: "opensea_loop w url (j # js) s = opensea_loop w url js ?s'"
      using Inr p by (simp add: opensea_loop_Cons_ok)
    show ?thesis
      unfolding l t t'
      using e Inr p
      by (intro exI[of _ "RequestsGet url j # SyncDb kid tx # evs"]) auto
  qed
qed

lemma set_upsert_ids:
  "i \<in> set (upsert_ids evs) \<longleftrightarrow> (\<exists>ev \<in> set evs. upsert_id ev = Some i)"
  by (induction evs) (auto simp: upsert_ids_Nil upsert_ids_Cons split: option.splits)

lemma trace_emit: "trace (emit ev s) = trace s @ [ev]"
  by (simp add: emit_def)

lemma opensea_sync_url:
  "opensea_url net = Inr url \<Longrightarrow>
   opensea_sync w net start_id s =
     opensea_loop w url [start_id..totalSupply w (trace s)] (emit TotalSupplyCall s)"
  by (simp add: opensea_sync_def Let_def)

text \<open>
  C5. Let an ID \<^verbatim>\<open>k\<close> of the range of \<^verbatim>\<open>opensea_sync\<close> be one whose request fails (an
  error status, a body that is not JSON, a missing or ill-typed field: any error of
  \<^verbatim>\<open>opensea_item\<close>). Then the run ends in an error; it sends no request for an ID after
  \<^verbatim>\<open>k\<close>; every \<^verbatim>\<open>sync_db\<close> call it makes applies the answer to the request for an ID
  before \<^verbatim>\<open>k\<close>; and its final state is that of the completed loop over the IDs before the
  first failing ID, followed by the request for that ID alone. The ID passed to
  \<^verbatim>\<open>sync_db\<close> is the one the index reports, so when the index reports the ID it was asked
  for, every upserted ID is below \<^verbatim>\<open>k\<close>.
\<close>

theorem opensea_failure_aborts_run:
  assumes "opensea_url net = Inr url"
    and "start_id \<le> k" and "k \<le> totalSupply w (trace s)"
    and "opensea_item (requests_get w url k) = Inl e"
  shows "(\<exists>e'. fst (opensea_sync w net start_id s) = Inl e') \<and>
    (\<forall>u j. RequestsGet u j \<in> set (events_since s (snd (opensea_sync w net start_id s))) \<longrightarrow>
       start_id \<le> j \<and> j \<le> k) \<and>
    (\<forall>kid tx. SyncDb kid tx \<in> set (events_since s (snd (opensea_sync w net start_id s))) \<longrightarrow>
       (\<exists>j. start_id \<le> j \<and> j < k \<and> opensea_item (requests_get w url j) = Inr (kid, tx))) \<and>
    (\<forall>x. SyncDbWithoutTxid x \<notin> set (events_since s (snd (opensea_sync w net start_id s)))) \<and>
    ((\<forall>j kid tx. opensea_item (requests_get w url j) = Inr (kid, tx) \<longrightarrow> kid = j) \<longrightarrow>
       (\<forall>i \<in> set (upsert_ids (events_since s (snd (opensea_sync w net start_id s)))). i < k)) \<and>
    (\<exists>k' e'. start_id \<le> k' \<and> k' \<le> k \<and>
       fst (opensea_loop w url [start_id..k' - 1] (emit TotalSupplyCall s)) = Inr () \<and>
       opensea_sync w net start_id s =
         (Inl e', emit (RequestsGet url k')
                    (snd (opensea_loop w url [start_id..k' - 1] (emit TotalSupplyCall s)))))"
proof -
  let ?s1 = "emit TotalSupplyCall s"
  let ?run = "opensea_sync w net start_id s"
  from opensea_loop_first_failure[OF assms(2-4), of ?s1] obtain k' e' where
    k': "start_id \<le> k'" "k' \<le> k"
    and ok: "fst (opensea_loop w url [start_id..k' - 1] ?s1) = Inr ()"
    and run: "?run = (Inl e', emit (RequestsGet url k')
                        (snd (opensea_loop w url [start_id..k' - 1] ?s1)))"
    unfolding opensea_sync_url[OF assms(1)] by blast
  from opensea_loop_effects[of w url "[start_id..k' - 1]" ?s1] obtain evs where
    tr: "trace (snd (opensea_loop w url [start_id..k' - 1] ?s1)) = trace ?s1 @ evs"
    and evs: "\<forall>ev \<in> set evs.
        (\<exists>j \<in> set [start_id..k' - 1]. ev = RequestsGet url j) \<or>
        (\<exists>j \<in> set [start_id..k' - 1]. \<exists>kid tx.
           opensea_item (requests_get w url j) = Inr (kid, tx) \<and> ev = SyncDb kid tx)"
    by blast
  have ev: "events_since s (snd ?run) = TotalSupplyCall # evs @ [RequestsGet url k']"
    unfolding run by (simp add: events_since_def trace_emit tr)
  have c1: "\<exists>e'. fst ?run = Inl e'"
    unfolding run by simp
  have c2: "\<forall>u j. RequestsGet u j \<in> set (events_since s (snd ?run)) \<longrightarrow> start_id \<le> j \<and> j \<le> k"
    unfolding ev using evs k' by auto
  have c3: "\<forall>kid tx. SyncDb kid tx \<in> set (events_since s (snd ?run)) \<longrightarrow>
       (\<exists>j. start_id \<le> j \<and> j < k \<and> opensea_item (requests_get w url j) = Inr (kid, tx))"
  proof (intro allI impI)
    fix kid tx
    assume "SyncDb kid tx \<in> set (events_since s (snd ?run))"
    then have "SyncDb kid tx \<in> set evs"
      unfolding ev by simp
    with evs obtain j where "j \<in> set [start_id..k' - 1]"
      "opensea_item (requests_get w url j) = Inr (kid, tx)"
      by auto
    with k' show "\<exists>j. start_id \<le> j \<and> j < k \<and> opensea_item (requests_get w url j) = Inr (kid, tx)"
      by (intro exI[of _ j]) simp
  qed
  have c4: "\<forall>x. SyncDbWithoutTxid x \<notin> set (events_since s (snd ?run))"
    unfolding ev using evs by auto
  have c5: "\<forall>i \<in> set (upsert_ids (events_since s (snd ?run))). i < k"
    if echo: "\<forall>j kid tx. opensea_item (requests_get w url j) = Inr (kid, tx) \<longrightarrow> kid = j"
  proof
    fix i
    assume "i \<in> set (upsert_ids (events_since s (snd ?run)))"
    then obtain x where x: "x \<in> set (events_since s (snd ?run))" "upsert_id x = Some i"
      by (auto simp: set_upsert_ids)
    show "i < k"
    proof (cases x)
      case (SyncDb kid tx)
      with x c3 obtain j where "start_id \<le> j" "j < k"
        "opensea_item (requests_get w url j) = Inr (kid, tx)"
        by blast
      with echo SyncDb x(2) show ?thesis by auto
    next
      case (SyncDbWithoutTxid y)
      with x c4 show ?thesis by blast
    qed (use x in simp_all)
  qed
  have c6: "\<exists>k' e'. start_id \<le> k' \<and> k' \<le> k \<and>
       fst (opensea_loop w url [start_id..k' - 1] ?s1) = Inr () \<and>
       ?run = (Inl e', emit (RequestsGet url k')
                         (snd (opensea_loop w url [start_id..k' - 1] ?s1)))"
    using k' ok run by blast
  from c1 c2 c3 c4 c5 c6 show ?thesis
    by blast
qed

theorem opensea_failure_aborts_run_witness:
  "opensea_url Mainnet = Inr mainnet_url \<and>
   (1::int) \<le> 2 \<and> 2 \<le> totalSupply example_world (trace empty_state) \<and>
   opensea_item (requests_get example_world mainnet_url 2) = Inl HTTPError \<and>
   list_all (\<lambda>i. i < 2) (upsert_ids (events_since empty_state
      (snd (opensea_sync example_world Mainnet 1 empty_state)))) \<and>
   opensea_sync example_world Mainnet 1 empty_state =
     (Inl HTTPError,
      \<lparr>store = [(1, PStr ''0xab'')],
       trace = [TotalSupplyCall, RequestsGet mainnet_url 1, SyncDb 1 (PStr ''0xab''),
                RequestsGet mainnet_url 2]\<rparr>)"
proof -
  have a: "opensea_url Mainnet = Inr mainnet_url"
    by (simp add: opensea_url_def mainnet_url_def)
  have b: "(1::int) \<le> 2" "2 \<le> totalSupply example_world (trace empty_state)"
    by (simp_all add: example_world_simps)
  have c: "opensea_item (requests_get example_world mainnet_url 2) = Inl HTTPError"
    by (simp add: example_world_def opensea_item_http_error)
  have d: "opensea_item (requests_get example_world mainnet_url 1) = Inr (1, PStr ''0xab'')"
    by (simp add: example_world_def ok_response_def opensea_item_def raise_for_status_def
        response_json_def ebind_def)
  have r: "opensea_sync example_world Mainnet 1 empty_state =
     (Inl HTTPError,
      \<lparr>store = [(1, PStr ''0xab'')],
       trace = [TotalSupplyCall, RequestsGet mainnet_url 1, SyncDb 1 (PStr ''0xab''),
                RequestsGet mainnet_url 2]\<rparr>)"
    by (simp add: opensea_sync_url[OF a] example_world_simps upto.simps c d Let_def
        emit_def call_sync_db_def empty_state_def put_def)
  have echo: "\<forall>j kid tx. opensea_item (requests_get example_world mainnet_url j) = Inr (kid, tx) \<longrightarrow>
      kid = j"
    by (simp add: example_world_def ok_response_def opensea_item_def raise_for_status_def
        response_json_def ebind_def)
  note t = opensea_failure_aborts_run [OF a b c]
  from t echo have u: "\<forall>i \<in> set (upsert_ids (events_since empty_state
              (snd (opensea_sync example_world Mainnet 1 empty_state)))). i < 2"
    by blast
  then have v: "list_all (\<lambda>i. i < 2) (upsert_ids (events_since empty_state
      (snd (opensea_sync example_world Mainnet 1 empty_state))))"
    by (simp add: list_all_iff)
  from a b c r v show ?thesis
    by blast
qed

end
